theory Spec2Isabelle
  imports Main "HOL-Library.Word" "HOL-Library.State_Monad"
begin

unbundle bit_operations_syntax

section \<open>The device structure\<close>

text \<open>
  The driver nxp\_simtemp keeps one \<^verbatim>\<open>struct simtemp_dev\<close>. The C types are kept:
  \<^verbatim>\<open>u32\<close> and \<^verbatim>\<open>int\<close> are 32-bit words (an \<^verbatim>\<open>int\<close> is read with \<open>sint\<close>),
  \<^verbatim>\<open>u64\<close> is a 64-bit word, so every addition wraps as the machine's does.
  The member \<^verbatim>\<open>work\<close> (a \<^verbatim>\<open>struct delayed_work\<close>) is modelled by its queueing
  state: \<open>None\<close> when the work is idle, \<open>Some d\<close> when it is queued with a timer that
  expires after \<open>d\<close> jiffies. The members \<^verbatim>\<open>lock\<close> and \<^verbatim>\<open>wq\<close> carry no data of
  their own; what the code does with them is recorded in the trace of events below.
\<close>

type_synonym u32 = "32 word"
type_synonym s32 = "32 word"
type_synonym u64 = "64 word"

record simtemp_dev =
  work :: "nat option"
  enabled :: bool
  sampling_hz :: u32
  temp_mc :: s32
  threshold_mc :: s32
  data_ready :: bool
  sample_count :: u64

datatype field =
  F_enabled | F_sampling_hz | F_temp_mc | F_threshold_mc | F_data_ready | F_sample_count

text \<open>
  Every call on the spinlock, the wait queue, the delayed work and user memory, and every
  load or store of a field of the device, leaves an event, in program order.
\<close>

datatype event =
    SpinLock
  | SpinUnlock
  | Rd field
  | Wr field
  | WakeUpInterruptible
  | PollWait
  | ScheduleDelayedWork nat
  | ModDelayedWork nat
  | CancelDelayedWorkSync
  | CopyToUser string

record kernel =
  sd :: simtemp_dev
  trace :: "event list"

datatype errno = EINVAL | EFAULT | ENOMEM

datatype fault = DivideError

section \<open>Primitive actions\<close>

definition emit :: "event \<Rightarrow> (kernel, unit) state" where
  "emit e = State (\<lambda>k. ((), k\<lparr>trace := trace k @ [e]\<rparr>))"

definition rd :: "field \<Rightarrow> (simtemp_dev \<Rightarrow> 'a) \<Rightarrow> (kernel, 'a) state" where
  "rd f sel = State (\<lambda>k. (sel (sd k), k\<lparr>trace := trace k @ [Rd f]\<rparr>))"

definition wr :: "field \<Rightarrow> (simtemp_dev \<Rightarrow> simtemp_dev) \<Rightarrow> (kernel, unit) state" where
  "wr f upd = State (\<lambda>k. ((), k\<lparr>sd := upd (sd k), trace := trace k @ [Wr f]\<rparr>))"

definition spin_lock_irqsave :: "(kernel, unit) state" where
  "spin_lock_irqsave = emit SpinLock"

definition spin_unlock_irqrestore :: "(kernel, unit) state" where
  "spin_unlock_irqrestore = emit SpinUnlock"

definition wake_up_interruptible :: "(kernel, unit) state" where
  "wake_up_interruptible = emit WakeUpInterruptible"

definition poll_wait :: "(kernel, unit) state" where
  "poll_wait = emit PollWait"

text \<open>
  The delayed-work primitives \<^verbatim>\<open>schedule_delayed_work\<close>, \<^verbatim>\<open>mod_delayed_work\<close> and
  \<^verbatim>\<open>cancel_delayed_work_sync\<close> belong to the kernel's workqueue, not to the driver.
  They are modelled by their documented effect on the queueing state of the work.
  Scheduling queues the work with the given delay unless it is queued already (the result
  says whether it was queued now). Modifying re-arms the timer to the given delay whether
  the work was queued or idle (with delay zero: it fires at once), and says whether the
  work was pending. Cancelling leaves the work idle, returns only when no cycle is in
  flight, and says whether the work was pending.
\<close>

definition schedule_delayed_work :: "nat \<Rightarrow> (kernel, bool) state" where
  "schedule_delayed_work delay = State (\<lambda>k.
     case work (sd k) of
       Some _ \<Rightarrow> (False, k\<lparr>trace := trace k @ [ScheduleDelayedWork delay]\<rparr>)
     | None \<Rightarrow> (True, k\<lparr>sd := (sd k)\<lparr>work := Some delay\<rparr>,
                         trace := trace k @ [ScheduleDelayedWork delay]\<rparr>))"

definition mod_delayed_work :: "nat \<Rightarrow> (kernel, bool) state" where
  "mod_delayed_work delay = State (\<lambda>k.
     (work (sd k) \<noteq> None,
      k\<lparr>sd := (sd k)\<lparr>work := Some delay\<rparr>, trace := trace k @ [ModDelayedWork delay]\<rparr>))"

definition cancel_delayed_work_sync :: "(kernel, bool) state" where
  "cancel_delayed_work_sync = State (\<lambda>k.
     (work (sd k) \<noteq> None,
      k\<lparr>sd := (sd k)\<lparr>work := None\<rparr>, trace := trace k @ [CancelDelayedWorkSync]\<rparr>))"

text \<open>
  \<^verbatim>\<open>copy_to_user(buf, kbuf, n)\<close> returns the number of bytes it could not copy. What it
  can copy depends on the caller's buffer alone: \<open>uw\<close> is the number of bytes writable at
  the user's address (0 for a bad pointer).
\<close>

definition copy_to_user :: "nat \<Rightarrow> string \<Rightarrow> nat \<Rightarrow> (kernel, nat) state" where
  "copy_to_user uw kbuf n = State (\<lambda>k.
     (n - min n uw, k\<lparr>trace := trace k @ [CopyToUser (take (min n uw) kbuf)]\<rparr>))"

section \<open>Formatting\<close>

definition digit_char :: "nat \<Rightarrow> char" where
  "digit_char d = ''0123456789'' ! d"

fun dec :: "nat \<Rightarrow> string" where
  "dec n = (if n < 10 then [digit_char n] else dec (n div 10) @ [digit_char (n mod 10)])"

declare dec.simps [simp del]

text \<open>The conversions \<^verbatim>\<open>%u\<close> and \<^verbatim>\<open>%d\<close>.\<close>

definition fmt_u :: "u32 \<Rightarrow> string" where
  "fmt_u v = dec (unat v)"

definition fmt_d :: "s32 \<Rightarrow> string" where
  "fmt_d v = (if sint v < 0 then CHR ''-'' # dec (nat (- sint v)) else dec (nat (sint v)))"

text \<open>
  \<^verbatim>\<open>scnprintf(buf, sz, ...)\<close> writes at most \<open>sz - 1\<close> characters and the final NUL,
  and returns the number of characters written.
\<close>

definition scnprintf :: "nat \<Rightarrow> string \<Rightarrow> string" where
  "scnprintf sz line = take (sz - 1) line"

section \<open>The periodic sampler\<close>

text \<open>
  \<^verbatim>\<open>int delta = ((int)(r % 1001)) - 500;\<close> where \<open>r\<close> holds the four bytes that
  \<^verbatim>\<open>get_random_bytes\<close> delivered.
\<close>

definition delta :: "u32 \<Rightarrow> s32" where
  "delta r = (r mod 1001) - 500"

text \<open>
  \<^verbatim>\<open>simtemp_update_fn\<close>. The conversion \<^verbatim>\<open>msecs_to_jiffies\<close> depends on the kernel's
  tick rate and is a parameter. The division \<^verbatim>\<open>1000 / sd->sampling_hz\<close> is undefined
  when the rate is zero, a rate that the device tree can supply, since \<^verbatim>\<open>st_init\<close> takes
  its value unchecked: the function then ends there in a fault, with the lock still held.
\<close>

definition simtemp_update_fn :: "(u32 \<Rightarrow> nat) \<Rightarrow> u32 \<Rightarrow> (kernel, fault + unit) state" where
  "simtemp_update_fn msecs_to_jiffies r = do {
     spin_lock_irqsave;
     en \<leftarrow> rd F_enabled enabled;
     if \<not> en then do {
       spin_unlock_irqrestore;
       State_Monad.return (Inr ())
     } else do {
       wr F_temp_mc (\<lambda>d. d\<lparr>temp_mc := 40000 + delta r\<rparr>);
       c \<leftarrow> rd F_sample_count sample_count;
       wr F_sample_count (\<lambda>d. d\<lparr>sample_count := c + 1\<rparr>);
       wr F_data_ready (\<lambda>d. d\<lparr>data_ready := True\<rparr>);
       t \<leftarrow> rd F_temp_mc temp_mc;
       th \<leftarrow> rd F_threshold_mc threshold_mc;
       (if sint th \<le> sint t then wake_up_interruptible else wake_up_interruptible);
       hz \<leftarrow> rd F_sampling_hz sampling_hz;
       if hz = 0 then State_Monad.return (Inl DivideError)
       else do {
         spin_unlock_irqrestore;
         _ \<leftarrow> schedule_delayed_work (msecs_to_jiffies (1000 div hz));
         State_Monad.return (Inr ())
       }
     }
   }"

text \<open>
  The cycle cut after its first store. \<open>cycle_head\<close> is \<^verbatim>\<open>simtemp_update_fn\<close> from taking
  the lock up to the store of the reading (source lines 48 to 54), and says whether the
  cycle goes on; \<open>cycle_tail\<close> is the rest of the function (lines 55 to 67). Lemma
  \<open>cycle_split\<close> shows that the function is the one followed by the other.
\<close>

definition cycle_head :: "u32 \<Rightarrow> (kernel, bool) state" where
  "cycle_head r = do {
     spin_lock_irqsave;
     en \<leftarrow> rd F_enabled enabled;
     if \<not> en then do {
       spin_unlock_irqrestore;
       State_Monad.return False
     } else do {
       wr F_temp_mc (\<lambda>d. d\<lparr>temp_mc := 40000 + delta r\<rparr>);
       State_Monad.return True
     }
   }"

definition cycle_tail :: "(u32 \<Rightarrow> nat) \<Rightarrow> (kernel, fault + unit) state" where
  "cycle_tail msecs_to_jiffies = do {
     c \<leftarrow> rd F_sample_count sample_count;
     wr F_sample_count (\<lambda>d. d\<lparr>sample_count := c + 1\<rparr>);
     wr F_data_ready (\<lambda>d. d\<lparr>data_ready := True\<rparr>);
     t \<leftarrow> rd F_temp_mc temp_mc;
     th \<leftarrow> rd F_threshold_mc threshold_mc;
     (if sint th \<le> sint t then wake_up_interruptible else wake_up_interruptible);
     hz \<leftarrow> rd F_sampling_hz sampling_hz;
     if hz = 0 then State_Monad.return (Inl DivideError)
     else do {
       spin_unlock_irqrestore;
       _ \<leftarrow> schedule_delayed_work (msecs_to_jiffies (1000 div hz));
       State_Monad.return (Inr ())
     }
   }"

text \<open>
  The workqueue runs the work function when the work is queued and its timer has expired;
  the work stops being pending just before the function is entered. Time is not modelled:
  a queued work may run at any moment.
\<close>

definition run_work :: "(u32 \<Rightarrow> nat) \<Rightarrow> u32 \<Rightarrow> (kernel, fault + unit) state" where
  "run_work msecs_to_jiffies r = State (\<lambda>k.
     case work (sd k) of
       None \<Rightarrow> (Inr (), k)
     | Some _ \<Rightarrow> run_state (simtemp_update_fn msecs_to_jiffies r) (k\<lparr>sd := (sd k)\<lparr>work := None\<rparr>\<rparr>))"

section \<open>The character device\<close>

text \<open>
  \<^verbatim>\<open>st_read\<close>: \<open>len\<close> is the caller's length, \<open>ppos\<close> the file offset on entry; the
  result is the return value and the offset on return. Sizes are only compared, never
  computed with, and are natural numbers.
\<close>

definition st_read :: "nat \<Rightarrow> nat \<Rightarrow> int \<Rightarrow> (kernel, (errno + nat) \<times> int) state" where
  "st_read uw len ppos = do {
     t \<leftarrow> rd F_temp_mc temp_mc;
     let kbuf = scnprintf 64 (''temp_mc='' @ fmt_d t @ [CHR 0x0A]);
         n = length kbuf
     in
       if ppos \<noteq> 0 then State_Monad.return (Inr 0, ppos)
       else if len < n then State_Monad.return (Inl EINVAL, ppos)
       else do {
         ret \<leftarrow> copy_to_user uw kbuf n;
         if ret \<noteq> 0 then State_Monad.return (Inl EFAULT, ppos)
         else State_Monad.return (Inr n, int n)
       }
   }"

text \<open>The poll bits, as in the kernel's \<^verbatim>\<open>uapi/linux/eventpoll.h\<close>.\<close>

definition EPOLLIN :: u32 where
  "EPOLLIN = 0x001"

definition EPOLLRDNORM :: u32 where
  "EPOLLRDNORM = 0x040"

definition st_poll :: "(kernel, u32) state" where
  "st_poll = do {
     poll_wait;
     spin_lock_irqsave;
     rdy \<leftarrow> rd F_data_ready data_ready;
     mask \<leftarrow> (if rdy then do {
                 wr F_data_ready (\<lambda>d. d\<lparr>data_ready := False\<rparr>);
                 State_Monad.return (0 OR (EPOLLIN OR EPOLLRDNORM))
               } else State_Monad.return 0);
     spin_unlock_irqrestore;
     State_Monad.return mask
   }"

definition st_open :: "(kernel, int) state" where
  "st_open = State_Monad.return 0"

section \<open>The sysfs attributes\<close>

text \<open>
  A show function returns the text that \<^verbatim>\<open>sysfs_emit\<close> leaves in the buffer (its return
  value is the length of that text). A store function gets the outcome of the kernel's
  parser (\<^verbatim>\<open>kstrtouint\<close>, \<^verbatim>\<open>kstrtoint\<close>) on the caller's text: \<open>None\<close> when the parser
  reports an error, the number otherwise; \<open>count\<close> is the length of the text, which a
  successful store returns.
\<close>

definition enable_show :: "(kernel, string) state" where
  "enable_show = do {
     en \<leftarrow> rd F_enabled enabled;
     State_Monad.return (fmt_d (if en then 1 else 0) @ [CHR 0x0A])
   }"

definition enable_store :: "u32 option \<Rightarrow> nat \<Rightarrow> (kernel, errno + nat) state" where
  "enable_store parsed count =
     (case parsed of
        None \<Rightarrow> State_Monad.return (Inl EINVAL)
      | Some v \<Rightarrow> do {
          spin_lock_irqsave;
          wr F_enabled (\<lambda>d. d\<lparr>enabled := (v \<noteq> 0)\<rparr>);
          spin_unlock_irqrestore;
          en \<leftarrow> rd F_enabled enabled;
          _ \<leftarrow> (if en then mod_delayed_work 0 else cancel_delayed_work_sync);
          State_Monad.return (Inr count)
        })"

definition sampling_hz_show :: "(kernel, string) state" where
  "sampling_hz_show = do {
     hz \<leftarrow> rd F_sampling_hz sampling_hz;
     State_Monad.return (fmt_u hz @ [CHR 0x0A])
   }"

definition sampling_hz_store :: "u32 option \<Rightarrow> nat \<Rightarrow> (kernel, errno + nat) state" where
  "sampling_hz_store parsed count =
     (case parsed of
        None \<Rightarrow> State_Monad.return (Inl EINVAL)
      | Some v \<Rightarrow>
          if v < 1 \<or> v > 100 then State_Monad.return (Inl EINVAL)
          else do {
            wr F_sampling_hz (\<lambda>d. d\<lparr>sampling_hz := v\<rparr>);
            State_Monad.return (Inr count)
          })"

definition threshold_mc_show :: "(kernel, string) state" where
  "threshold_mc_show = do {
     th \<leftarrow> rd F_threshold_mc threshold_mc;
     State_Monad.return (fmt_d th @ [CHR 0x0A])
   }"

definition threshold_mc_store :: "s32 option \<Rightarrow> nat \<Rightarrow> (kernel, errno + nat) state" where
  "threshold_mc_store parsed count =
     (case parsed of
        None \<Rightarrow> State_Monad.return (Inl EINVAL)
      | Some v \<Rightarrow> do {
          wr F_threshold_mc (\<lambda>d. d\<lparr>threshold_mc := v\<rparr>);
          State_Monad.return (Inr count)
        })"

definition temp_mc_show :: "(kernel, string) state" where
  "temp_mc_show = do {
     t \<leftarrow> rd F_temp_mc temp_mc;
     State_Monad.return (fmt_d t @ [CHR 0x0A])
   }"

section \<open>Module initialisation\<close>

text \<open>
  \<^verbatim>\<open>st_init\<close>: \<open>alloc_ok\<close> says whether \<^verbatim>\<open>kzalloc\<close> delivered memory (zeroed, so
  \<^verbatim>\<open>data_ready\<close> is false and \<^verbatim>\<open>sample_count\<close> is 0), \<open>dt\<close> is the first
  device-tree node compatible with \<^verbatim>\<open>nxp,simtemp\<close>, if there is one, with the
  properties it has, and \<open>reg\<close> the error of \<^verbatim>\<open>misc_register\<close>, if it fails. The structure
  has no member \<^verbatim>\<open>rng_seed\<close>; the two assignments to it have nothing to land on and
  are left out.
\<close>

record dt_node =
  dt_sampling_hz :: "u32 option"
  dt_threshold_mc :: "u32 option"
  dt_rng_seed :: "u32 option"

definition st_init :: "bool \<Rightarrow> dt_node option \<Rightarrow> errno option \<Rightarrow> errno + simtemp_dev" where
  "st_init alloc_ok dt reg =
     (if \<not> alloc_ok then Inl ENOMEM
      else
        let d0 = \<lparr>work = None, enabled = False, sampling_hz = 2, temp_mc = 40000,
                  threshold_mc = 45000, data_ready = False, sample_count = 0\<rparr>;
            d1 = (case dt of
                    None \<Rightarrow> d0
                  | Some np \<Rightarrow>
                      let a = (case dt_sampling_hz np of
                                 Some val \<Rightarrow> d0\<lparr>sampling_hz := val\<rparr> | None \<Rightarrow> d0)
                      in (case dt_threshold_mc np of
                            Some val \<Rightarrow> a\<lparr>threshold_mc := val\<rparr> | None \<Rightarrow> a))
        in case reg of Some e \<Rightarrow> Inl e | None \<Rightarrow> Inr d1)"

section \<open>Operations and runs\<close>

text \<open>
  Everything that can happen to a loaded driver: the workqueue runs the sampler, or a
  caller enters one of the file or attribute operations.
\<close>

datatype op =
    RunWork u32
  | Read nat nat int
  | Poll
  | Open
  | EnableShow
  | EnableStore "u32 option" nat
  | SamplingHzShow
  | SamplingHzStore "u32 option" nat
  | ThresholdShow
  | ThresholdStore "s32 option" nat
  | TempShow

definition after :: "(kernel, 'a) state \<Rightarrow> kernel \<Rightarrow> kernel" where
  "after m k = snd (run_state m k)"

fun exec :: "(u32 \<Rightarrow> nat) \<Rightarrow> op \<Rightarrow> kernel \<Rightarrow> kernel" where
  "exec j (RunWork r) k = after (run_work j r) k"
| "exec j (Read uw len ppos) k = after (st_read uw len ppos) k"
| "exec j Poll k = after st_poll k"
| "exec j Open k = after st_open k"
| "exec j EnableShow k = after enable_show k"
| "exec j (EnableStore p c) k = after (enable_store p c) k"
| "exec j SamplingHzShow k = after sampling_hz_show k"
| "exec j (SamplingHzStore p c) k = after (sampling_hz_store p c) k"
| "exec j ThresholdShow k = after threshold_mc_show k"
| "exec j (ThresholdStore p c) k = after (threshold_mc_store p c) k"
| "exec j TempShow k = after temp_mc_show k"

fun execs :: "(u32 \<Rightarrow> nat) \<Rightarrow> op list \<Rightarrow> kernel \<Rightarrow> kernel" where
  "execs j [] k = k"
| "execs j (a # as) k = execs j as (exec j a k)"

text \<open>The events an action adds to the trace.\<close>

definition events :: "(kernel, 'a) state \<Rightarrow> kernel \<Rightarrow> event list" where
  "events m k = drop (length (trace k)) (trace (after m k))"

section \<open>Lock discipline on a trace\<close>

fun is_access :: "event \<Rightarrow> bool" where
  "is_access (Rd f) = True"
| "is_access (Wr f) = True"
| "is_access e = False"

fun is_write :: "event \<Rightarrow> bool" where
  "is_write (Wr f) = True"
| "is_write e = False"

text \<open>
  The loads and stores of a trace that happen while the lock is not held; the first
  argument says whether the lock is held at the start.
\<close>

fun unlocked_accesses :: "bool \<Rightarrow> event list \<Rightarrow> event list" where
  "unlocked_accesses held [] = []"
| "unlocked_accesses held (SpinLock # es) = unlocked_accesses True es"
| "unlocked_accesses held (SpinUnlock # es) = unlocked_accesses False es"
| "unlocked_accesses held (e # es) =
     (if \<not> held \<and> is_access e then e # unlocked_accesses held es
      else unlocked_accesses held es)"


text \<open>The number of times a trace takes the lock.\<close>

definition acquisitions :: "event list \<Rightarrow> nat" where
  "acquisitions es = length (filter (\<lambda>e. e = SpinLock) es)"

text \<open>A concrete setting: the defaults of \<^verbatim>\<open>st_init\<close>, and a tick of one millisecond.\<close>

definition dev0 :: simtemp_dev where
  "dev0 = \<lparr>work = None, enabled = False, sampling_hz = 2, temp_mc = 40000,
           threshold_mc = 45000, data_ready = False, sample_count = 0\<rparr>"

definition k0 :: kernel where
  "k0 = \<lparr>sd = dev0, trace = []\<rparr>"

definition jiffies_1ms :: "u32 \<Rightarrow> nat" where
  "jiffies_1ms m = unat m"

text \<open>The operations that switch sampling on.\<close>

fun enabling :: "op \<Rightarrow> bool" where
  "enabling (EnableStore (Some v) c) = (v \<noteq> 0)"
| "enabling a = False"

text \<open>
  A device that has just been switched on, the same device when the workqueue has taken the
  work off the queue to enter the sampler, one that has produced its first sample, and one
  whose counter has reached its last value.
\<close>

definition k_started :: kernel where
  "k_started = after (enable_store (Some 1) 2) k0"

definition k_dispatched :: kernel where
  "k_dispatched = k_started\<lparr>sd := (sd k_started)\<lparr>work := None\<rparr>\<rparr>"

definition k_running :: kernel where
  "k_running = \<lparr>sd = \<lparr>work = Some 500, enabled = True, sampling_hz = 2, temp_mc = 39507,
                       threshold_mc = 45000, data_ready = True, sample_count = 1\<rparr>,
                 trace = []\<rparr>"

definition k_last :: kernel where
  "k_last = \<lparr>sd = \<lparr>work = Some 500, enabled = True, sampling_hz = 2, temp_mc = 40000,
                    threshold_mc = 45000, data_ready = True,
                    sample_count = 18446744073709551615\<rparr>,
              trace = []\<rparr>"

text \<open>
  An operation produces a sample when it is a run of the workqueue that finds the work
  pending and the device enabled; \<open>produced\<close> counts the samples of a run of operations.
  \<open>op_events\<close> are the events that an operation adds to the trace.
\<close>

definition produces :: "op \<Rightarrow> kernel \<Rightarrow> bool" where
  "produces a k = (case a of RunWork r \<Rightarrow> work (sd k) \<noteq> None \<and> enabled (sd k) | _ \<Rightarrow> False)"

fun produced :: "(u32 \<Rightarrow> nat) \<Rightarrow> op list \<Rightarrow> kernel \<Rightarrow> nat" where
  "produced j [] k = 0"
| "produced j (a # as) k = (if produces a k then 1 else 0) + produced j as (exec j a k)"

definition op_events :: "(u32 \<Rightarrow> nat) \<Rightarrow> op \<Rightarrow> kernel \<Rightarrow> event list" where
  "op_events j a k = drop (length (trace k)) (trace (exec j a k))"

text \<open>The line that a read of the device delivers for a reading.\<close>

definition temp_line :: "s32 \<Rightarrow> string" where
  "temp_line t = ''temp_mc='' @ fmt_d t @ [CHR 0x0A]"

text \<open>The stores of a cycle that produces a sample, and the events it leaves up to the division.\<close>

definition sampled :: "u32 \<Rightarrow> simtemp_dev \<Rightarrow> simtemp_dev" where
  "sampled r d = d\<lparr>temp_mc := 40000 + delta r, sample_count := sample_count d + 1,
                    data_ready := True\<rparr>"

definition cycle_events :: "event list" where
  "cycle_events = [SpinLock, Rd F_enabled, Wr F_temp_mc, Rd F_sample_count, Wr F_sample_count,
     Wr F_data_ready, Rd F_temp_mc, Rd F_threshold_mc, WakeUpInterruptible, Rd F_sampling_hz]"

section \<open>Running the primitive actions\<close>

lemma run_emit: "run_state (emit e) k = ((), k\<lparr>trace := trace k @ [e]\<rparr>)"
  by (simp add: emit_def)

lemma run_rd: "run_state (rd f sel) k = (sel (sd k), k\<lparr>trace := trace k @ [Rd f]\<rparr>)"
  by (simp add: rd_def)

lemma run_wr:
  "run_state (wr f upd) k = ((), k\<lparr>sd := upd (sd k), trace := trace k @ [Wr f]\<rparr>)"
  by (simp add: wr_def)

lemmas run_prims = run_emit run_rd run_wr spin_lock_irqsave_def spin_unlock_irqrestore_def
  wake_up_interruptible_def poll_wait_def schedule_delayed_work_def mod_delayed_work_def
  cancel_delayed_work_sync_def copy_to_user_def

lemma events_append: "trace (after m k) = trace k @ es \<Longrightarrow> events m k = es"
  by (simp add: events_def)

section \<open>The jitter\<close>

lemma sint_small: "unat (x :: 32 word) < 2147483648 \<Longrightarrow> sint x = int (unat x)"
proof -
  assume a: "unat x < 2147483648"
  have lo: "- 2147483648 \<le> uint x" using uint_ge_0 [of x] by linarith
  have "uint x = int (unat x)" by simp
  also have "\<dots> < 2147483648" using a by linarith
  finally have hi: "uint x < 2147483648" .
  have "sint x = signed_take_bit (LENGTH(32) - Suc 0) (uint x)"
    by (rule sint_uint)
  also have "\<dots> = uint x"
  proof (rule signed_take_bit_int_eq_self)
    show "- (2 ^ (LENGTH(32) - Suc 0)) \<le> uint x" using lo by simp
    show "uint x < 2 ^ (LENGTH(32) - Suc 0)" using hi by simp
  qed
  finally show ?thesis by simp
qed

lemma sint_delta: "sint (delta r) = int (unat r mod 1001) - 500"
proof -
  let ?x = "r mod 1001"
  have u: "unat ?x = unat r mod 1001" by (simp add: unat_mod)
  then have lt: "unat ?x < 1001" by simp
  then have sx: "sint ?x = int (unat r mod 1001)" using sint_small [of ?x] u by simp
  have "sint (?x - 500) = signed_take_bit (LENGTH(32) - 1) (sint ?x - sint (500 :: 32 word))"
    by (rule sint_word_diff)
  also have "\<dots> = sint ?x - sint (500 :: 32 word)"
    using sx lt u by (intro signed_take_bit_int_eq_self) simp_all
  finally show ?thesis using sx by (simp add: delta_def)
qed

lemma delta_range: "- 500 \<le> sint (delta r) \<and> sint (delta r) \<le> 500"
proof -
  have "unat r mod 1001 < 1001" by simp
  then show ?thesis unfolding sint_delta by linarith
qed

lemma sint_temp: "sint (40000 + delta r) = 40000 + sint (delta r)"
proof -
  have "sint (40000 + delta r) =
        signed_take_bit (LENGTH(32) - 1) (sint (40000 :: 32 word) + sint (delta r))"
    by (rule sint_word_add)
  also have "\<dots> = sint (40000 :: 32 word) + sint (delta r)"
    using delta_range [of r] by (intro signed_take_bit_int_eq_self) simp_all
  finally show ?thesis by simp
qed

section \<open>What one cycle of the sampler does\<close>

lemma update_disabled:
  "\<not> enabled (sd k) \<Longrightarrow>
   run_state (simtemp_update_fn j r) k =
     (Inr (), k\<lparr>trace := trace k @ [SpinLock, Rd F_enabled, SpinUnlock]\<rparr>)"
  by (simp add: simtemp_update_fn_def run_prims)

lemma update_fault:
  "enabled (sd k) \<Longrightarrow> sampling_hz (sd k) = 0 \<Longrightarrow>
   run_state (simtemp_update_fn j r) k =
     (Inl DivideError, k\<lparr>sd := sampled r (sd k), trace := trace k @ cycle_events\<rparr>)"
  by (simp add: simtemp_update_fn_def run_prims sampled_def cycle_events_def)

lemma update_enabled:
  "enabled (sd k) \<Longrightarrow> sampling_hz (sd k) \<noteq> 0 \<Longrightarrow>
   run_state (simtemp_update_fn j r) k =
     (Inr (),
      k\<lparr>sd := (sampled r (sd k))
              \<lparr>work := (case work (sd k) of
                          None \<Rightarrow> Some (j (1000 div sampling_hz (sd k)))
                        | Some d \<Rightarrow> Some d)\<rparr>,
        trace := trace k @ cycle_events @
                 [SpinUnlock, ScheduleDelayedWork (j (1000 div sampling_hz (sd k)))]\<rparr>)"
  by (simp add: simtemp_update_fn_def run_prims sampled_def cycle_events_def
      split: option.splits)

lemma cycle_result:
  "enabled (sd k) \<Longrightarrow>
   \<exists>w tl. after (simtemp_update_fn j r) k =
            k\<lparr>sd := (sampled r (sd k))\<lparr>work := w\<rparr>, trace := trace k @ cycle_events @ tl\<rparr>
          \<and> (tl = [] \<or> (\<exists>d. tl = [SpinUnlock, ScheduleDelayedWork d]))"
proof (cases "sampling_hz (sd k) = 0")
  case True
  assume "enabled (sd k)"
  then have "after (simtemp_update_fn j r) k =
      k\<lparr>sd := (sampled r (sd k))\<lparr>work := work (sd k)\<rparr>, trace := trace k @ cycle_events @ []\<rparr>"
    using True by (simp add: after_def update_fault sampled_def)
  then show ?thesis by blast
next
  case False
  assume "enabled (sd k)"
  then have "after (simtemp_update_fn j r) k =
      k\<lparr>sd := (sampled r (sd k))\<lparr>work := (case work (sd k) of
                          None \<Rightarrow> Some (j (1000 div sampling_hz (sd k)))
                        | Some d \<Rightarrow> Some d)\<rparr>,
        trace := trace k @ cycle_events @
                 [SpinUnlock, ScheduleDelayedWork (j (1000 div sampling_hz (sd k)))]\<rparr>"
    using False by (simp add: after_def update_enabled)
  then show ?thesis by blast
qed

lemma cycle_split:
  "simtemp_update_fn j r =
     do { go \<leftarrow> cycle_head r;
          if go then cycle_tail j else State_Monad.return (Inr ()) }"
  by (rule state_ext) (simp add: simtemp_update_fn_def cycle_head_def cycle_tail_def run_prims)

text \<open>
  One cycle on an enabled device, seen from the sampler: the delta lies between -500 and
  +500, the reading becomes 40000 plus the delta, the counter goes up by one and the ready
  flag is set; the cycle takes the lock once, makes every access under it, and these three
  stores are its only stores.
\<close>

lemma sampler_cycle_atomic_group:
  "enabled (sd k) \<Longrightarrow>
     - 500 \<le> sint (delta r) \<and> sint (delta r) \<le> 500
   \<and> temp_mc (sd (after (simtemp_update_fn j r) k)) = 40000 + delta r
   \<and> sint (temp_mc (sd (after (simtemp_update_fn j r) k))) = 40000 + sint (delta r)
   \<and> sample_count (sd (after (simtemp_update_fn j r) k)) = sample_count (sd k) + 1
   \<and> data_ready (sd (after (simtemp_update_fn j r) k))
   \<and> acquisitions (events (simtemp_update_fn j r) k) = 1
   \<and> unlocked_accesses False (events (simtemp_update_fn j r) k) = []
   \<and> filter is_write (events (simtemp_update_fn j r) k) =
       [Wr F_temp_mc, Wr F_sample_count, Wr F_data_ready]"
proof -
  assume en: "enabled (sd k)"
  from cycle_result [OF en, of j r] obtain w tl where
    a: "after (simtemp_update_fn j r) k =
          k\<lparr>sd := (sampled r (sd k))\<lparr>work := w\<rparr>, trace := trace k @ cycle_events @ tl\<rparr>"
    and tl: "tl = [] \<or> (\<exists>d. tl = [SpinUnlock, ScheduleDelayedWork d])"
    by blast
  have ev: "events (simtemp_update_fn j r) k = cycle_events @ tl"
    by (rule events_append) (simp add: a)
  have st: "temp_mc (sd (after (simtemp_update_fn j r) k)) = 40000 + delta r"
    "sample_count (sd (after (simtemp_update_fn j r) k)) = sample_count (sd k) + 1"
    "data_ready (sd (after (simtemp_update_fn j r) k))"
    by (simp_all add: a sampled_def)
  have tr: "acquisitions (cycle_events @ tl) = 1"
    "unlocked_accesses False (cycle_events @ tl) = []"
    "filter is_write (cycle_events @ tl) = [Wr F_temp_mc, Wr F_sample_count, Wr F_data_ready]"
    using tl by (auto simp: acquisitions_def cycle_events_def)
  show ?thesis
    using delta_range [of r] st tr by (simp add: ev sint_temp)
qed

section \<open>The state after each operation\<close>

lemma run_work_idle: "work (sd k) = None \<Longrightarrow> after (run_work j r) k = k"
  by (simp add: run_work_def after_def)

lemma run_work_disabled:
  "\<not> enabled (sd k) \<Longrightarrow> sd (after (run_work j r) k) = (sd k)\<lparr>work := None\<rparr>"
  by (simp add: run_work_def after_def update_disabled split: option.splits)

lemma run_work_sample:
  "enabled (sd k) \<Longrightarrow> work (sd k) \<noteq> None \<Longrightarrow>
   sd (after (run_work j r) k) =
     (sampled r (sd k))\<lparr>work := (if sampling_hz (sd k) = 0 then None
                                 else Some (j (1000 div sampling_hz (sd k))))\<rparr>"
  by (cases "sampling_hz (sd k) = 0")
     (auto simp: run_work_def after_def update_fault update_enabled sampled_def)

lemma run_work_cases:
  "sd (after (run_work j r) k) = sd k
   \<or> (\<not> enabled (sd k) \<and> sd (after (run_work j r) k) = (sd k)\<lparr>work := None\<rparr>)
   \<or> (enabled (sd k) \<and> work (sd k) \<noteq> None
       \<and> (\<exists>w. sd (after (run_work j r) k) = (sampled r (sd k))\<lparr>work := w\<rparr>))"
proof (cases "work (sd k) = None")
  case True
  then show ?thesis by (simp add: run_work_idle)
next
  case False
  then show ?thesis
    using run_work_disabled [of k j r] run_work_sample [of k j r] by (cases "enabled (sd k)") auto
qed

lemma poll_run:
  "run_state st_poll k =
     (if data_ready (sd k) then EPOLLIN OR EPOLLRDNORM else 0,
      k\<lparr>sd := (sd k)\<lparr>data_ready := False\<rparr>,
        trace := trace k @
          (if data_ready (sd k)
           then [PollWait, SpinLock, Rd F_data_ready, Wr F_data_ready, SpinUnlock]
           else [PollWait, SpinLock, Rd F_data_ready, SpinUnlock])\<rparr>)"
  by (simp add: st_poll_def run_prims)

lemma poll_mask_nonzero: "EPOLLIN OR EPOLLRDNORM \<noteq> (0 :: u32)"
  by (simp add: EPOLLIN_def EPOLLRDNORM_def)

lemma poll_sd: "sd (after st_poll k) = (sd k)\<lparr>data_ready := False\<rparr>"
  by (simp add: after_def poll_run)

lemma read_sd: "sd (after (st_read uw len ppos) k) = sd k"
  by (simp add: after_def st_read_def run_prims Let_def)

lemma open_sd: "sd (after st_open k) = sd k"
  by (simp add: after_def st_open_def)

lemma show_sd:
  "sd (after enable_show k) = sd k"
  "sd (after sampling_hz_show k) = sd k"
  "sd (after threshold_mc_show k) = sd k"
  "sd (after temp_mc_show k) = sd k"
  by (simp_all add: after_def enable_show_def sampling_hz_show_def threshold_mc_show_def
      temp_mc_show_def run_prims)

lemma enable_store_run:
  "run_state (enable_store (Some v) c) k =
     (Inr c,
      k\<lparr>sd := (sd k)\<lparr>enabled := (v \<noteq> 0), work := (if v \<noteq> 0 then Some 0 else None)\<rparr>,
        trace := trace k @ [SpinLock, Wr F_enabled, SpinUnlock, Rd F_enabled,
                  if v \<noteq> 0 then ModDelayedWork 0 else CancelDelayedWorkSync]\<rparr>)"
  by (simp add: enable_store_def run_prims)

lemma enable_store_sd:
  "sd (after (enable_store p c) k) =
     (case p of None \<Rightarrow> sd k
      | Some v \<Rightarrow> (sd k)\<lparr>enabled := (v \<noteq> 0), work := (if v \<noteq> 0 then Some 0 else None)\<rparr>)"
  by (cases p) (simp_all add: after_def enable_store_run, simp add: enable_store_def)

lemma sampling_hz_store_sd:
  "sd (after (sampling_hz_store p c) k) =
     (case p of None \<Rightarrow> sd k
      | Some v \<Rightarrow> if v < 1 \<or> v > 100 then sd k else (sd k)\<lparr>sampling_hz := v\<rparr>)"
  by (cases p) (simp_all add: after_def sampling_hz_store_def run_prims)

lemma threshold_mc_store_sd:
  "sd (after (threshold_mc_store p c) k) =
     (case p of None \<Rightarrow> sd k | Some v \<Rightarrow> (sd k)\<lparr>threshold_mc := v\<rparr>)"
  by (cases p) (simp_all add: after_def threshold_mc_store_def run_prims)

lemmas op_sd = poll_sd read_sd open_sd show_sd enable_store_sd sampling_hz_store_sd
  threshold_mc_store_sd

section \<open>Formatting a reading\<close>

lemma dec_small: "n < 10 \<Longrightarrow> dec n = [digit_char n]"
  by (simp add: dec.simps)

lemma dec_big: "\<not> n < 10 \<Longrightarrow> dec n = dec (n div 10) @ [digit_char (n mod 10)]"
  by (subst dec.simps) simp

lemma dec_length: "0 < m \<Longrightarrow> n < 10 ^ m \<Longrightarrow> length (dec n) \<le> m"
proof (induction m arbitrary: n)
  case 0
  then show ?case by simp
next
  case (Suc m)
  show ?case
  proof (cases "n < 10")
    case True
    then show ?thesis by (simp add: dec_small)
  next
    case False
    with Suc.prems have m: "0 < m" by (cases m) simp_all
    from Suc.prems have "n div 10 < 10 ^ m" by (simp add: less_mult_imp_div_less mult.commute)
    from Suc.IH [OF m this] False show ?thesis by (simp add: dec_big)
  qed
qed

lemma fmt_d_length: "length (fmt_d v) \<le> 11"
proof -
  have lo: "- 2147483648 \<le> sint v" using sint_ge [of v] by simp
  have hi: "sint v < 2147483648" using sint_lt [of v] by simp
  have a: "length (dec (nat (- sint v))) \<le> 10"
    using lo by (intro dec_length) simp_all
  have b: "length (dec (nat (sint v))) \<le> 10"
    using hi by (intro dec_length) simp_all
  show ?thesis using a b by (simp add: fmt_d_def)
qed

lemma temp_line_length: "length (temp_line t) \<le> 20"
  using fmt_d_length [of t] by (simp add: temp_line_def)

lemma scnprintf_temp_line:
  "scnprintf 64 (''temp_mc='' @ fmt_d t @ [CHR 0x0A]) = temp_line t"
  using temp_line_length [of t] by (simp add: scnprintf_def temp_line_def)

lemma st_read_run:
  "run_state (st_read uw len ppos) k =
     (if ppos \<noteq> 0 then ((Inr 0, ppos), k\<lparr>trace := trace k @ [Rd F_temp_mc]\<rparr>)
      else if len < length (temp_line (temp_mc (sd k)))
        then ((Inl EINVAL, ppos), k\<lparr>trace := trace k @ [Rd F_temp_mc]\<rparr>)
      else if uw < length (temp_line (temp_mc (sd k)))
        then ((Inl EFAULT, ppos),
              k\<lparr>trace := trace k @
                 [Rd F_temp_mc, CopyToUser (take uw (temp_line (temp_mc (sd k))))]\<rparr>)
      else ((Inr (length (temp_line (temp_mc (sd k)))),
             int (length (temp_line (temp_mc (sd k))))),
            k\<lparr>trace := trace k @ [Rd F_temp_mc, CopyToUser (temp_line (temp_mc (sd k)))]\<rparr>))"
  unfolding st_read_def scnprintf_temp_line
  by (simp add: run_prims Let_def min_def)

lemma temp_line_k0: "temp_line (temp_mc (sd k0)) = ''temp_mc=40000'' @ [CHR 0x0A]"
  by (simp add: temp_line_def fmt_d_def k0_def dev0_def dec_small dec_big digit_char_def)

section \<open>Runs of operations\<close>

lemma disabled_step:
  assumes "\<not> enabled (sd k)" and "work (sd k) = None" and "\<not> enabling a"
  shows "\<not> enabled (sd (exec j a k)) \<and> work (sd (exec j a k)) = None
   \<and> sample_count (sd (exec j a k)) = sample_count (sd k)
   \<and> temp_mc (sd (exec j a k)) = temp_mc (sd k)"
proof (cases a)
  case (RunWork r)
  with assms show ?thesis by (simp add: run_work_idle)
next
  case (EnableStore p c)
  with assms show ?thesis by (cases p) (auto simp: op_sd)
qed (use assms in \<open>auto simp: op_sd split: option.splits\<close>)

lemma disabled_run:
  "\<not> enabled (sd k) \<Longrightarrow> work (sd k) = None \<Longrightarrow> \<forall>a \<in> set ops. \<not> enabling a \<Longrightarrow>
   \<not> enabled (sd (execs j ops k)) \<and> work (sd (execs j ops k)) = None
   \<and> sample_count (sd (execs j ops k)) = sample_count (sd k)
   \<and> temp_mc (sd (execs j ops k)) = temp_mc (sd k)"
proof (induction ops arbitrary: k)
  case Nil
  then show ?case by simp
next
  case (Cons a as)
  from Cons.prems have na: "\<not> enabling a" and nas: "\<forall>a \<in> set as. \<not> enabling a" by simp_all
  note st = disabled_step [OF Cons.prems(1) Cons.prems(2) na, of j]
  from st have d: "\<not> enabled (sd (exec j a k))" and w: "work (sd (exec j a k)) = None"
    by simp_all
  from Cons.IH [OF d w nas] st show ?case by simp
qed

lemma produces_step:
  "produces a k \<Longrightarrow> sample_count (sd (exec j a k)) = sample_count (sd k) + 1"
  by (cases a) (simp_all add: produces_def run_work_sample sampled_def)

lemma not_produces_step:
  assumes "\<not> produces a k"
  shows "sample_count (sd (exec j a k)) = sample_count (sd k)"
proof (cases a)
  case (RunWork r)
  with assms have "work (sd k) = None \<or> \<not> enabled (sd k)" by (simp add: produces_def)
  then show ?thesis using RunWork
    by (auto simp: run_work_idle run_work_disabled)
qed (auto simp: op_sd split: option.splits)

lemma produces_events:
  "produces a k = (Wr F_sample_count \<in> set (op_events j a k))"
proof (cases a)
  case (RunWork r)
  show ?thesis
  proof (cases "work (sd k)")
    case None
    then show ?thesis using RunWork
      by (simp add: produces_def op_events_def run_work_idle)
  next
    case (Some d)
    show ?thesis
    proof (cases "enabled (sd k)")
      case False
      then show ?thesis using RunWork Some
        by (simp add: produces_def op_events_def after_def run_work_def update_disabled)
    next
      case True
      then show ?thesis using RunWork Some
        by (cases "sampling_hz (sd k) = 0")
           (simp_all add: produces_def op_events_def after_def run_work_def update_fault
              update_enabled cycle_events_def)
    qed
  qed
next
  case (Read uw len ppos)
  then show ?thesis
    by (simp add: produces_def op_events_def after_def st_read_run)
next
  case Poll
  then show ?thesis by (simp add: produces_def op_events_def after_def poll_run)
next
  case (EnableStore p c)
  then show ?thesis
    by (cases p) (simp_all add: produces_def op_events_def after_def enable_store_run,
        simp add: enable_store_def)
next
  case (SamplingHzStore p c)
  then show ?thesis
    by (cases p) (simp_all add: produces_def op_events_def after_def sampling_hz_store_def run_prims)
next
  case (ThresholdStore p c)
  then show ?thesis
    by (cases p) (simp_all add: produces_def op_events_def after_def threshold_mc_store_def run_prims)
qed (simp_all add: produces_def op_events_def after_def st_open_def enable_show_def
      sampling_hz_show_def threshold_mc_show_def temp_mc_show_def run_prims)

lemma sample_count_run:
  "sample_count (sd (execs j ops k)) = sample_count (sd k) + of_nat (produced j ops k)"
proof (induction ops arbitrary: k)
  case Nil
  then show ?case by simp
next
  case (Cons a as)
  show ?case
  proof (cases "produces a k")
    case True
    then show ?thesis using Cons.IH [of "exec j a k"] produces_step [of a k j]
      by (simp add: add.assoc)
  next
    case False
    then show ?thesis using Cons.IH [of "exec j a k"] not_produces_step [of a k j]
      by simp
  qed
qed

lemma unat_add_count:
  "unat (c :: u64) + n < 2 ^ 64 \<Longrightarrow> unat (c + of_nat n) = unat c + n"
proof -
  assume a: "unat c + n < 2 ^ 64"
  then have n: "n < 2 ^ 64" by simp
  have "unat (c + of_nat n) = (unat c + unat (of_nat n :: u64)) mod 2 ^ 64"
    by (simp add: unat_word_ariths)
  also have "unat (of_nat n :: u64) = n" using n by (simp add: unat_of_nat)
  finally show ?thesis using a by simp
qed

section \<open>The concrete states are reachable\<close>

lemma k_started_sd: "sd k_started = dev0\<lparr>enabled := True, work := Some 0\<rparr>"
  by (simp add: k_started_def enable_store_sd k0_def)


lemma k_dispatched_run_work:
  "run_state (run_work j r) k_started = run_state (simtemp_update_fn j r) k_dispatched"
  by (simp add: run_work_def k_dispatched_def k_started_sd)

lemma k_running_reachable:
  "sd (execs jiffies_1ms [EnableStore (Some 1) 2, RunWork 7] k0) = sd k_running"
  by (simp add: op_sd run_work_sample sampled_def k0_def dev0_def k_running_def delta_def
      jiffies_1ms_def)

lemma repeated_samples:
  "enabled (sd k) \<Longrightarrow> sampling_hz (sd k) \<noteq> 0 \<Longrightarrow> work (sd k) \<noteq> None \<Longrightarrow>
   sd (execs j (replicate (Suc n) (RunWork r)) k) =
     (sd k)\<lparr>work := Some (j (1000 div sampling_hz (sd k))), temp_mc := 40000 + delta r,
            data_ready := True, sample_count := sample_count (sd k) + of_nat (Suc n)\<rparr>"
proof (induction n arbitrary: k)
  case 0
  then show ?case by (simp add: run_work_sample sampled_def)
next
  case (Suc n)
  let ?k1 = "after (run_work j r) k"
  have s: "sd ?k1 = (sampled r (sd k))\<lparr>work := Some (j (1000 div sampling_hz (sd k)))\<rparr>"
    using Suc.prems by (simp add: run_work_sample)
  then have p: "enabled (sd ?k1)" "sampling_hz (sd ?k1) \<noteq> 0" "work (sd ?k1) \<noteq> None"
    using Suc.prems by (simp_all add: sampled_def)
  have "execs j (replicate (Suc (Suc n)) (RunWork r)) k =
        execs j (replicate (Suc n) (RunWork r)) ?k1"
    by simp
  also have "sd \<dots> = (sd ?k1)\<lparr>work := Some (j (1000 div sampling_hz (sd ?k1))),
       temp_mc := 40000 + delta r, data_ready := True,
       sample_count := sample_count (sd ?k1) + of_nat (Suc n)\<rparr>"
    by (rule Suc.IH [OF p])
  also have "\<dots> = (sd k)\<lparr>work := Some (j (1000 div sampling_hz (sd k))),
       temp_mc := 40000 + delta r, data_ready := True,
       sample_count := sample_count (sd k) + of_nat (Suc (Suc n))\<rparr>"
    by (simp add: s sampled_def add.assoc)
  finally show ?case .
qed

lemma k_last_reachable:
  "sd (execs jiffies_1ms
        (EnableStore (Some 1) 2 # replicate (Suc 18446744073709551614) (RunWork 500)) k0) =
   sd k_last"
proof -
  let ?k1 = "after (enable_store (Some 1) 2) k0"
  have s: "sd ?k1 = dev0\<lparr>enabled := True, work := Some 0\<rparr>"
    by (simp add: op_sd k0_def)
  then have p: "enabled (sd ?k1)" "sampling_hz (sd ?k1) \<noteq> 0" "work (sd ?k1) \<noteq> None"
    by (simp_all add: dev0_def)
  have d: "delta 500 = 0" by (simp add: delta_def)
  have c: "(0 :: u64) + of_nat (Suc 18446744073709551614) = 18446744073709551615"
    by simp
  have "sd (execs jiffies_1ms (replicate (Suc 18446744073709551614) (RunWork 500)) ?k1) =
     (sd ?k1)\<lparr>work := Some (jiffies_1ms (1000 div sampling_hz (sd ?k1))),
        temp_mc := 40000 + delta 500, data_ready := True,
        sample_count := sample_count (sd ?k1) + of_nat (Suc 18446744073709551614)\<rparr>"
    by (rule repeated_samples [OF p])
  also have "\<dots> = sd k_last"
    unfolding s d using c by (simp add: dev0_def k_last_def jiffies_1ms_def)
  finally show ?thesis by (simp only: execs.simps exec.simps)
qed

section \<open>The claims\<close>


text \<open>
  Claim C2. A cycle of the sampler that finds the device disabled takes the lock, reads the
  enable flag, releases the lock and returns; the device, the work's queueing state
  included, is as before, so nothing is stored and nothing is rescheduled. Once a store of
  0 to the enable attribute has returned, the device is disabled and the work is idle, and
  they stay so, with the sample counter and the reading unchanged, through every further
  run of operations that does not switch sampling on again, however often the workqueue
  is given the chance to run the sampler.
\<close>

theorem disable_stops_sampling:
  "(\<not> enabled (sd k) \<longrightarrow>
      run_state (simtemp_update_fn j r) k =
        (Inr (), k\<lparr>trace := trace k @ [SpinLock, Rd F_enabled, SpinUnlock]\<rparr>))
   \<and> ((\<forall>a \<in> set ops. \<not> enabling a) \<longrightarrow>
        \<not> enabled (sd (after (enable_store (Some 0) c) k'))
      \<and> work (sd (after (enable_store (Some 0) c) k')) = None
      \<and> sample_count (sd (after (enable_store (Some 0) c) k')) = sample_count (sd k')
      \<and> \<not> enabled (sd (execs j ops (after (enable_store (Some 0) c) k')))
      \<and> work (sd (execs j ops (after (enable_store (Some 0) c) k'))) = None
      \<and> sample_count (sd (execs j ops (after (enable_store (Some 0) c) k'))) =
          sample_count (sd k')
      \<and> temp_mc (sd (execs j ops (after (enable_store (Some 0) c) k'))) = temp_mc (sd k'))"
proof -
  let ?k1 = "after (enable_store (Some 0) c) k'"
  have d: "\<not> enabled (sd ?k1)" and w: "work (sd ?k1) = None"
    and s: "sample_count (sd ?k1) = sample_count (sd k')"
    and t: "temp_mc (sd ?k1) = temp_mc (sd k')"
    by (simp_all add: enable_store_sd)
  show ?thesis
    using disabled_run [OF d w, of ops j] d w s t by (simp add: update_disabled)
qed

theorem disable_stops_sampling_witness:
  "\<not> enabled (sd k0)
   \<and> run_state (simtemp_update_fn jiffies_1ms 7) k0 =
       (Inr (), k0\<lparr>trace := trace k0 @ [SpinLock, Rd F_enabled, SpinUnlock]\<rparr>)
   \<and> \<not> enabling (RunWork 7) \<and> \<not> enabling Poll
   \<and> \<not> enabling (SamplingHzStore (Some 10) 3) \<and> \<not> enabling (RunWork 9)
   \<and> enabled (sd k_running)
   \<and> sample_count (sd (execs jiffies_1ms [RunWork 7, Poll, SamplingHzStore (Some 10) 3, RunWork 9]
        (after (enable_store (Some 0) 2) k_running))) = 1"
proof -
  have a: "\<not> enabled (sd k0)" by (simp add: k0_def dev0_def)
  have b: "\<forall>a \<in> set [RunWork 7, Poll, SamplingHzStore (Some 10) 3, RunWork 9]. \<not> enabling a"
    by simp
  have c: "enabled (sd k_running) \<and> sample_count (sd k_running) = 1"
    by (simp add: k_running_def)
  have d: "\<not> enabling (RunWork 7) \<and> \<not> enabling Poll
    \<and> \<not> enabling (SamplingHzStore (Some 10) 3) \<and> \<not> enabling (RunWork 9)"
    by simp
  show ?thesis
    using a b c d disable_stops_sampling
      [where k = k0 and j = jiffies_1ms and r = 7 and k' = k_running and c = 2
         and ops = "[RunWork 7, Poll, SamplingHzStore (Some 10) 3, RunWork 9]"]
    by metis
qed

text \<open>
  Claim C3. Storing a rate between 1 and 100 hertz succeeds (it returns the length of
  the text), and the rate then read back is that value. Storing a rate outside that range,
  or a text that is no number, fails with EINVAL and changes nothing: neither a field
  of the device nor the trace.
\<close>

theorem set_rate_range:
  "(1 \<le> h \<and> h \<le> 100 \<longrightarrow>
       fst (run_state (sampling_hz_store (Some h) c) k) = Inr c
     \<and> sampling_hz (sd (after (sampling_hz_store (Some h) c) k)) = h
     \<and> fst (run_state sampling_hz_show (after (sampling_hz_store (Some h) c) k)) =
         fmt_u h @ [CHR 0x0A])
   \<and> (h < 1 \<or> 100 < h \<longrightarrow>
       run_state (sampling_hz_store (Some h) c) k = (Inl EINVAL, k))
   \<and> run_state (sampling_hz_store None c) k = (Inl EINVAL, k)"
  by (auto simp: sampling_hz_store_def sampling_hz_show_def run_prims after_def not_le not_less)

theorem set_rate_range_witness:
  "(1 :: u32) \<le> 10 \<and> (10 :: u32) \<le> 100
   \<and> fst (run_state (sampling_hz_store (Some 10) 3) k0) = Inr 3
   \<and> fst (run_state sampling_hz_show (after (sampling_hz_store (Some 10) 3) k0)) = ''10'' @ [CHR 0x0A]
   \<and> ((0 :: u32) < 1 \<or> (100 :: u32) < 0)
   \<and> run_state (sampling_hz_store (Some 0) 2) k0 = (Inl EINVAL, k0)"
  using set_rate_range [of 10 3 k0] set_rate_range [of 0 2 k0]
  by (simp add: fmt_u_def dec_small dec_big digit_char_def)

text \<open>
  Claim C4. The poll operation reports readiness (a mask that is not zero) exactly when the
  ready flag was set on entry, and leaves the flag clear. A second poll right after it
  reports nothing: two polls in a row, with no sample in between, give ready and then not
  ready when the flag was set, and the flag is still clear afterwards.
\<close>

theorem poll_reports_and_clears:
  "(fst (run_state st_poll k) \<noteq> 0) = data_ready (sd k)
   \<and> fst (run_state st_poll k) = (if data_ready (sd k) then EPOLLIN OR EPOLLRDNORM else 0)
   \<and> \<not> data_ready (sd (after st_poll k))
   \<and> fst (run_state st_poll (after st_poll k)) = 0
   \<and> \<not> data_ready (sd (after st_poll (after st_poll k)))"
  by (simp add: poll_run after_def poll_mask_nonzero)

text \<open>
  Claim C5 says that every load and store of a field of the device happens while the lock
  is held. The driver does not keep to that. On the default device, the store of a rate
  writes \<^verbatim>\<open>sampling_hz\<close> and the store of a threshold writes \<^verbatim>\<open>threshold_mc\<close> without
  ever taking the lock, and the store to the enable attribute reads \<^verbatim>\<open>enabled\<close> again
  after it has released the lock.
\<close>

theorem stores_without_lock:
  "unlocked_accesses False (events (sampling_hz_store (Some 5) 2) k0) = [Wr F_sampling_hz]
   \<and> unlocked_accesses False (events (threshold_mc_store (Some 30000) 6) k0) = [Wr F_threshold_mc]
   \<and> unlocked_accesses False (events (enable_store (Some 1) 2) k0) = [Rd F_enabled]"
  by (simp add: events_def after_def sampling_hz_store_def threshold_mc_store_def
      enable_store_run run_prims k0_def)

text \<open>
  Claim C6. Whatever the operation and the state: if the ready flag is set before and clear
  after, the operation is a poll; if it is clear before and set after, the operation is a
  run of the sampler on an enabled device with pending work, and that run has produced a
  sample (the counter has gone up by one). No other operation changes the flag.
\<close>

theorem ready_flag_transitions:
  "(data_ready (sd k) \<and> \<not> data_ready (sd (exec j a k)) \<longrightarrow> a = Poll)
   \<and> (\<not> data_ready (sd k) \<and> data_ready (sd (exec j a k)) \<longrightarrow>
        (\<exists>r. a = RunWork r) \<and> enabled (sd k) \<and> work (sd k) \<noteq> None
        \<and> sample_count (sd (exec j a k)) = sample_count (sd k) + 1)"
proof (cases a)
  case (RunWork r)
  then show ?thesis using run_work_cases [of j r k] by (auto simp: sampled_def)
qed (auto simp: op_sd split: option.splits)

theorem ready_flag_transitions_witness:
  "data_ready (sd k_running) \<and> \<not> data_ready (sd (exec jiffies_1ms Poll k_running))
   \<and> \<not> data_ready (sd k_started) \<and> data_ready (sd (exec jiffies_1ms (RunWork 7) k_started))
   \<and> enabled (sd k_started) \<and> work (sd k_started) \<noteq> None
   \<and> sample_count (sd (exec jiffies_1ms (RunWork 7) k_started)) = sample_count (sd k_started) + 1"
proof -
  have a: "data_ready (sd k_running) \<and> \<not> data_ready (sd (exec jiffies_1ms Poll k_running))"
    by (simp add: k_running_def poll_sd)
  have b: "\<not> data_ready (sd k_started) \<and> data_ready (sd (exec jiffies_1ms (RunWork 7) k_started))"
    by (simp add: k_started_sd dev0_def run_work_sample sampled_def)
  show ?thesis
    using a b ready_flag_transitions [of k_running jiffies_1ms Poll]
      ready_flag_transitions [of k_started jiffies_1ms "RunWork 7"]
    by blast
qed

text \<open>
  Claim C7, as stated, fails where the 64-bit counter wraps: on an enabled device whose
  counter holds \<open>2^64 - 1\<close> (a state that \<open>k_last_reachable\<close> shows to be reachable), the
  next sample leaves the counter at 0, below its old value.
\<close>

theorem sample_count_wraps:
  "enabled (sd k_last) \<and> work (sd k_last) \<noteq> None
   \<and> sample_count (sd (exec jiffies_1ms (RunWork 7) k_last)) = 0
   \<and> \<not> sample_count (sd k_last) \<le> sample_count (sd (exec jiffies_1ms (RunWork 7) k_last))"
  by (simp add: k_last_def run_work_sample sampled_def)

text \<open>
  Claim C7, amended. An operation that produces a sample adds exactly one to the counter,
  in 64-bit arithmetic, and these are the operations that store to the counter at all;
  every other operation leaves it as it is. So after a run of operations the counter is
  its old value plus the number of samples produced, modulo \<open>2^64\<close>, and over every run
  that keeps it below \<open>2^64\<close> (old value plus samples produced) it does not decrease and
  grows by exactly the number of samples.
\<close>

theorem sample_count_counts_samples:
  "(produces a k \<longrightarrow> sample_count (sd (exec j a k)) = sample_count (sd k) + 1)
   \<and> (\<not> produces a k \<longrightarrow> sample_count (sd (exec j a k)) = sample_count (sd k))
   \<and> produces a k = (Wr F_sample_count \<in> set (op_events j a k))
   \<and> sample_count (sd (execs j ops k)) = sample_count (sd k) + of_nat (produced j ops k)
   \<and> (unat (sample_count (sd k)) + produced j ops k < 2 ^ 64 \<longrightarrow>
        sample_count (sd k) \<le> sample_count (sd (execs j ops k))
        \<and> unat (sample_count (sd (execs j ops k))) =
            unat (sample_count (sd k)) + produced j ops k)"
proof -
  have "unat (sample_count (sd (execs j ops k))) = unat (sample_count (sd k)) + produced j ops k"
    if "unat (sample_count (sd k)) + produced j ops k < 2 ^ 64"
    using that by (simp add: sample_count_run unat_add_count)
  then show ?thesis
    using produces_step [of a k j] not_produces_step [of a k j] produces_events [of a k j]
      sample_count_run [of j ops k]
    by (simp add: word_le_nat_alt)
qed

theorem sample_count_counts_samples_witness:
  "produces (RunWork 7) k_running
   \<and> sample_count (sd (exec jiffies_1ms (RunWork 7) k_running)) = 2
   \<and> \<not> produces Poll k_running
   \<and> sample_count (sd (exec jiffies_1ms Poll k_running)) = 1
   \<and> produced jiffies_1ms [RunWork 7, Poll, RunWork 9] k_running = 2
   \<and> unat (sample_count (sd k_running)) + produced jiffies_1ms [RunWork 7, Poll, RunWork 9] k_running
       < 2 ^ 64
   \<and> sample_count (sd (execs jiffies_1ms [RunWork 7, Poll, RunWork 9] k_running)) = 3
   \<and> unat (sample_count (sd k_last)) + produced jiffies_1ms [Poll] k_last < 2 ^ 64
   \<and> sample_count (sd k_last) \<le> sample_count (sd (execs jiffies_1ms [Poll] k_last))
   \<and> sample_count (sd (execs jiffies_1ms [Poll] k_last)) = 18446744073709551615"
proof -
  have p: "produces (RunWork 7) k_running" "\<not> produces Poll k_running"
    by (simp_all add: produces_def k_running_def)
  have n: "produced jiffies_1ms [RunWork 7, Poll, RunWork 9] k_running = 2"
    by (simp add: produces_def k_running_def run_work_sample sampled_def poll_sd)
  have m: "produced jiffies_1ms [Poll] k_last = 0"
    by (simp add: produces_def)
  have c: "sample_count (sd k_running) = 1" "sample_count (sd k_last) = 18446744073709551615"
    by (simp_all add: k_running_def k_last_def)
  have h1: "unat (sample_count (sd k_running))
      + produced jiffies_1ms [RunWork 7, Poll, RunWork 9] k_running < 2 ^ 64"
    unfolding n c by simp
  have h2: "unat (sample_count (sd k_last)) + produced jiffies_1ms [Poll] k_last < 2 ^ 64"
    unfolding m c by simp
  note t1 = sample_count_counts_samples
      [where a = "RunWork 7" and k = k_running and j = jiffies_1ms
         and ops = "[RunWork 7, Poll, RunWork 9]"]
  note t2 = sample_count_counts_samples
      [where a = Poll and k = k_running and j = jiffies_1ms and ops = "[]"]
  note t3 = sample_count_counts_samples
      [where a = Poll and k = k_last and j = jiffies_1ms and ops = "[Poll]"]
  have r1: "sample_count (sd (exec jiffies_1ms (RunWork 7) k_running)) = 2"
    using t1 p(1) c(1) by simp
  have r2: "sample_count (sd (exec jiffies_1ms Poll k_running)) = 1"
    using t2 p(2) c(1) by simp
  have "sample_count (sd (execs jiffies_1ms [RunWork 7, Poll, RunWork 9] k_running)) =
      sample_count (sd k_running)
      + of_nat (produced jiffies_1ms [RunWork 7, Poll, RunWork 9] k_running)"
    using t1 by blast
  then have r3: "sample_count (sd (execs jiffies_1ms [RunWork 7, Poll, RunWork 9] k_running)) = 3"
    unfolding n c by simp
  have r4: "sample_count (sd k_last) \<le> sample_count (sd (execs jiffies_1ms [Poll] k_last))"
    using t3 h2 by blast
  have r5: "sample_count (sd (execs jiffies_1ms [Poll] k_last)) = 18446744073709551615"
    using t3 m c(2) by simp
  from p n h1 h2 r1 r2 r3 r4 r5 show ?thesis by blast
qed

text \<open>
  Claim C8. Two cycles of the sampler that start in states differing only in the threshold
  end with the same result, leave the same events (so the same wake-up), and end in states
  that differ only in the threshold. A cycle that produces a sample wakes the wait queue
  exactly once, whatever the threshold.
\<close>

theorem threshold_has_no_effect:
  "fst (run_state (simtemp_update_fn j r) (k\<lparr>sd := (sd k)\<lparr>threshold_mc := t1\<rparr>\<rparr>)) =
   fst (run_state (simtemp_update_fn j r) (k\<lparr>sd := (sd k)\<lparr>threshold_mc := t2\<rparr>\<rparr>))
   \<and> events (simtemp_update_fn j r) (k\<lparr>sd := (sd k)\<lparr>threshold_mc := t1\<rparr>\<rparr>) =
     events (simtemp_update_fn j r) (k\<lparr>sd := (sd k)\<lparr>threshold_mc := t2\<rparr>\<rparr>)
   \<and> (sd (after (simtemp_update_fn j r) (k\<lparr>sd := (sd k)\<lparr>threshold_mc := t1\<rparr>\<rparr>)))\<lparr>threshold_mc := t\<rparr> =
     (sd (after (simtemp_update_fn j r) (k\<lparr>sd := (sd k)\<lparr>threshold_mc := t2\<rparr>\<rparr>)))\<lparr>threshold_mc := t\<rparr>
   \<and> (enabled (sd k) \<longrightarrow>
        filter (\<lambda>e. e = WakeUpInterruptible)
          (events (simtemp_update_fn j r) (k\<lparr>sd := (sd k)\<lparr>threshold_mc := t1\<rparr>\<rparr>)) =
        [WakeUpInterruptible])"
proof (cases "enabled (sd k)")
  case False
  then show ?thesis by (simp add: update_disabled events_def after_def)
next
  case en: True
  show ?thesis
  proof (cases "sampling_hz (sd k) = 0")
    case True
    with en show ?thesis
      by (simp add: update_fault events_def after_def sampled_def cycle_events_def)
  next
    case False
    with en show ?thesis
      by (simp add: update_enabled events_def after_def sampled_def cycle_events_def
          split: option.splits)
  qed
qed

theorem threshold_has_no_effect_witness:
  "enabled (sd k_running)
   \<and> filter (\<lambda>e. e = WakeUpInterruptible)
        (events (simtemp_update_fn jiffies_1ms 7) (k_running\<lparr>sd := (sd k_running)\<lparr>threshold_mc := 0\<rparr>\<rparr>)) =
      [WakeUpInterruptible]
   \<and> events (simtemp_update_fn jiffies_1ms 7) (k_running\<lparr>sd := (sd k_running)\<lparr>threshold_mc := 0\<rparr>\<rparr>) =
     events (simtemp_update_fn jiffies_1ms 7) (k_running\<lparr>sd := (sd k_running)\<lparr>threshold_mc := 90000\<rparr>\<rparr>)"
proof -
  have en: "enabled (sd k_running)" by (simp add: k_running_def)
  show ?thesis
    using threshold_has_no_effect
      [where j = jiffies_1ms and r = 7 and k = k_running and ?t1.0 = 0 and ?t2.0 = 90000
         and t = 0]
      en
    by blast
qed

text \<open>
  Claim C9, as stated, fails when sampling is switched on while it is on: on a device that
  is sampling, with the next cycle due in 500 jiffies, a store of 1 to the enable attribute
  re-arms the work to fire at once.
\<close>

theorem enable_again_rearms:
  "enabled (sd k_running) \<and> work (sd k_running) = Some 500
   \<and> work (sd (after (enable_store (Some 1) 2) k_running)) = Some 0
   \<and> sd (after (enable_store (Some 1) 2) k_running) \<noteq> sd k_running"
  by (simp add: k_running_def enable_store_sd)

text \<open>
  Claim C9, amended. A store to the enable attribute of the value the device already has
  succeeds and leaves every sensor field as it is. Its only effect is on the work: a store
  of a value other than 0 re-arms it to fire at once, a store of 0 leaves it idle, which
  changes nothing at all when no work was pending.
\<close>

theorem set_enabled_same_value:
  "enabled (sd k) = (v \<noteq> 0) \<Longrightarrow>
     fst (run_state (enable_store (Some v) c) k) = Inr c
   \<and> sd (after (enable_store (Some v) c) k) =
       (sd k)\<lparr>work := (if v \<noteq> 0 then Some 0 else None)\<rparr>
   \<and> (v = 0 \<and> work (sd k) = None \<longrightarrow> sd (after (enable_store (Some v) c) k) = sd k)"
proof -
  assume e: "enabled (sd k) = (v \<noteq> 0)"
  have "(sd k)\<lparr>enabled := (v \<noteq> 0)\<rparr> = sd k" using e [symmetric] by simp
  then have s: "sd (after (enable_store (Some v) c) k) =
       (sd k)\<lparr>work := (if v \<noteq> 0 then Some 0 else None)\<rparr>"
    by (simp add: enable_store_sd)
  have n: "sd (after (enable_store (Some v) c) k) = sd k" if "v = 0" and "work (sd k) = None"
  proof -
    have "(sd k)\<lparr>work := None\<rparr> = (sd k)\<lparr>work := work (sd k)\<rparr>"
      using that(2) by simp
    also have "\<dots> = sd k" by simp
    finally show ?thesis using s that(1) by simp
  qed
  have r: "fst (run_state (enable_store (Some v) c) k) = Inr c"
    by (simp add: enable_store_run)
  from r s n show ?thesis by blast
qed

theorem set_enabled_same_value_witness:
  "enabled (sd k0) = ((0 :: u32) \<noteq> 0)
   \<and> (0 :: u32) = 0 \<and> work (sd k0) = None
   \<and> fst (run_state (enable_store (Some 0) 2) k0) = Inr 2
   \<and> sd (after (enable_store (Some 0) 2) k0) = sd k0
   \<and> enabled (sd k_running) = ((1 :: u32) \<noteq> 0)
   \<and> fst (run_state (enable_store (Some 1) 2) k_running) = Inr 2
   \<and> sd (after (enable_store (Some 1) 2) k_running) = (sd k_running)\<lparr>work := Some 0\<rparr>"
proof -
  have a: "enabled (sd k0) = ((0 :: u32) \<noteq> 0)" by (simp add: k0_def dev0_def)
  have b: "work (sd k0) = None" by (simp add: k0_def dev0_def)
  have c: "enabled (sd k_running) = ((1 :: u32) \<noteq> 0)" by (simp add: k_running_def)
  show ?thesis
    using a b c set_enabled_same_value [OF a, of 2] set_enabled_same_value [OF c, of 2]
    by simp
qed

text \<open>
  Claim C10, as stated, fails when the copy to user space fails: at offset 0, with a length
  of 64 and a buffer address at which nothing can be written, the read returns EFAULT,
  not the length of the line, and the offset stays 0.
\<close>

theorem read_into_bad_buffer:
  "(0 :: int) = 0 \<and> \<not> 64 < length (temp_line (temp_mc (sd k0)))
   \<and> fst (run_state (st_read 0 64 0) k0) = (Inl EFAULT, 0)
   \<and> fst (run_state (st_read 0 64 0) k0) \<noteq>
       (Inr (length (temp_line (temp_mc (sd k0)))), int (length (temp_line (temp_mc (sd k0)))))"
  by (simp add: st_read_run temp_line_k0)

text \<open>
  Claim C10, amended. The formatted line has at most 20 characters, so it is never cut,
  and a read never changes the device. At an offset other than 0 the read returns 0 and
  copies nothing. At offset 0 with a length smaller than the line it returns EINVAL and
  copies nothing. Otherwise it hands the whole line to \<^verbatim>\<open>copy_to_user\<close>: when all of it
  can be written, the read returns the length of the line and sets the offset to it; when
  not, the read returns EFAULT and the offset stays 0. The value returned is never the
  length of a part of the line.
\<close>

theorem read_snapshot:
  "length (temp_line (temp_mc (sd k))) \<le> 20
   \<and> sd (after (st_read uw len ppos) k) = sd k
   \<and> (ppos \<noteq> 0 \<longrightarrow>
        fst (run_state (st_read uw len ppos) k) = (Inr 0, ppos)
        \<and> events (st_read uw len ppos) k = [Rd F_temp_mc])
   \<and> (ppos = 0 \<and> len < length (temp_line (temp_mc (sd k))) \<longrightarrow>
        fst (run_state (st_read uw len ppos) k) = (Inl EINVAL, 0)
        \<and> events (st_read uw len ppos) k = [Rd F_temp_mc])
   \<and> (ppos = 0 \<and> length (temp_line (temp_mc (sd k))) \<le> len
        \<and> length (temp_line (temp_mc (sd k))) \<le> uw \<longrightarrow>
        fst (run_state (st_read uw len ppos) k) =
          (Inr (length (temp_line (temp_mc (sd k)))),
           int (length (temp_line (temp_mc (sd k)))))
        \<and> events (st_read uw len ppos) k =
            [Rd F_temp_mc, CopyToUser (temp_line (temp_mc (sd k)))])
   \<and> (ppos = 0 \<and> length (temp_line (temp_mc (sd k))) \<le> len
        \<and> uw < length (temp_line (temp_mc (sd k))) \<longrightarrow>
        fst (run_state (st_read uw len ppos) k) = (Inl EFAULT, 0)
        \<and> events (st_read uw len ppos) k =
            [Rd F_temp_mc, CopyToUser (take uw (temp_line (temp_mc (sd k))))])"
  using temp_line_length [of "temp_mc (sd k)"]
  by (simp add: st_read_run events_def after_def)

theorem read_snapshot_witness:
  "(14 :: int) \<noteq> 0 \<and> fst (run_state (st_read 64 64 14) k0) = (Inr 0, 14)
   \<and> (0 :: int) = 0 \<and> 8 < length (temp_line (temp_mc (sd k0)))
   \<and> fst (run_state (st_read 64 8 0) k0) = (Inl EINVAL, 0)
   \<and> events (st_read 64 8 0) k0 = [Rd F_temp_mc]
   \<and> length (temp_line (temp_mc (sd k0))) \<le> 64
   \<and> fst (run_state (st_read 64 64 0) k0) = (Inr 14, 14)
   \<and> events (st_read 64 64 0) k0 = [Rd F_temp_mc, CopyToUser (''temp_mc=40000'' @ [CHR 0x0A])]
   \<and> (3 :: nat) < length (temp_line (temp_mc (sd k0)))
   \<and> fst (run_state (st_read 3 64 0) k0) = (Inl EFAULT, 0)"
  using read_snapshot [of k0 64 64 14] read_snapshot [of k0 64 8 0]
    read_snapshot [of k0 64 64 0] read_snapshot [of k0 3 64 0]
  by (simp add: temp_line_k0)

end
